theory Spec2Isabelle
  imports Main "HOL-Library.Word"
begin

section \<open>Pointer messages and semantic events\<close>

text \<open>
  Go's \<open>int\<close> is a 64-bit machine integer on the platforms the package targets;
  subtraction of coordinates wraps around.
\<close>

type_synonym go_int = "64 word"

text \<open>
  \<open>tea.MouseMsg\<close> of the Bubble Tea library, as far as the package reads it: the
  coordinates, the modifier keys, the action and the button.
\<close>

datatype MouseAction = MouseActionPress | MouseActionRelease | MouseActionMotion

record MouseMsg =
  X :: go_int
  Y :: go_int
  Shift :: bool
  Alt :: bool
  Ctrl :: bool
  Action :: MouseAction
  Button :: nat

text \<open>drag.go: \<open>type Point struct { X, Y int }\<close>\<close>

record Point =
  X :: go_int
  Y :: go_int

text \<open>click.go\<close>

datatype ClickEventType = Click | DoubleClick | RightClick

record ClickEvent =
  ID :: string
  EventType :: ClickEventType
  MouseMsg :: MouseMsg

text \<open>hover.go\<close>

datatype HoverEventType = MouseEnter | MouseHover | MouseLeave

record HoverEvent =
  ID :: string
  EventType :: HoverEventType
  MouseMsg :: MouseMsg

text \<open>drag.go\<close>

datatype DragEventType = DragStart | DragMove | DragEnd

record DragEvent =
  ID :: string
  EventType :: DragEventType
  DragType :: string
  DragOrigin :: Point
  DragOffset :: Point
  MouseMsg :: MouseMsg

text \<open>drop.go\<close>

datatype DropEventType = DropEnter | DropHover | DropLeave | DropRelease | DropAccept | DropDeny

record DropEvent =
  ID :: string
  EventType :: DropEventType
  DropType :: string
  Acceptable :: bool
  DragEvent :: DragEvent

text \<open>
  \<open>tea.Msg\<close> is Go's empty interface. The values the dispatcher distinguishes are the
  four event structs; a raw pointer message and anything else fall through its type switch.
\<close>

datatype Msg =
    ClickEventMsg ClickEvent
  | HoverEventMsg HoverEvent
  | DragEventMsg DragEvent
  | DropEventMsg DropEvent
  | MouseMsgMsg MouseMsg
  | OtherMsg

section \<open>Interaction state\<close>

text \<open>
  Modelled from the spec: the declaration of \<open>struct Interactable\<close> is not among the
  source files; its data fields are those of section 3 of the specification, under the
  names the handlers use (\<open>interaction.IsSelected\<close>, \<open>interaction.DragOrigin\<close>, ...).
  The click-timing fields are listed by the specification and touched by no handler.

  The data fields are kept in a record of their own, \<open>InteractionState\<close>, because the
  override hooks stored in an \<open>Interactable\<close> are functions on the element: a hook is
  modelled as a function on the data fields of the element it is given.
\<close>

record InteractionState =
  ID :: string
  LastClickTime :: int
  DoubleClickThreshold :: int
  ClickCount :: int
  IsSelected :: bool
  IsHovered :: bool
  IsDragging :: bool
  DragOrigin :: Point
  DragOffset :: Point
  IsValidDrop :: bool
  IsAboveDrop :: bool
  IsBelowDrop :: bool

section \<open>Commands\<close>

text \<open>
  A \<open>tea.Cmd\<close> is a Go closure \<open>func() tea.Msg\<close> that the host loop runs after the
  handler has returned. Every closure the default handlers build captures the pointer
  \<open>interaction\<close> (not a copy of the struct) and the handler's by-value parameters, so
  the fields \<open>interaction.ID\<close>, \<open>interaction.IsValidDrop\<close>, \<open>interaction.DragOrigin\<close> and
  \<open>interaction.DragOffset\<close> in a closure body are read when the closure is run. A
  closure is therefore a function of the interaction state found at that moment.

  \<open>tea.Batch\<close> collects commands and drops the nil ones; a command value is modelled
  as the list of closures the host loop will run: \<open>nil\<close> is the empty list, a single
  closure a singleton, \<open>tea.Batch(cmds...)\<close> the concatenation. The guard
  \<open>if cmd != nil { cmds = append(cmds, cmd) }\<close> is then plain concatenation.
\<close>

type_synonym Producer = "InteractionState \<Rightarrow> Msg"
type_synonym Cmd = "Producer list"

text \<open>Running a command against the state the element has at that moment.\<close>

definition runCmd :: "Cmd \<Rightarrow> InteractionState \<Rightarrow> Msg list" where
  "runCmd cmd s = map (\<lambda>p. p s) cmd"

text \<open>
  The hooks of the handler structs: \<open>func(element Interactive, ...) (Interactive, tea.Cmd)\<close>.
  The element is given by reference; the model passes its interaction state and takes
  the updated state back.
\<close>

type_synonym MouseHook = "InteractionState \<Rightarrow> MouseMsg \<Rightarrow> InteractionState \<times> Cmd"
type_synonym ClickEventHook = "InteractionState \<Rightarrow> ClickEvent \<Rightarrow> InteractionState \<times> Cmd"
type_synonym HoverEventHook = "InteractionState \<Rightarrow> HoverEvent \<Rightarrow> InteractionState \<times> Cmd"
type_synonym DragEventHook = "InteractionState \<Rightarrow> DragEvent \<Rightarrow> InteractionState \<times> Cmd"
type_synonym DropEventHook = "InteractionState \<Rightarrow> DropEvent \<Rightarrow> InteractionState \<times> Cmd"

text \<open>Calling a nil function value panics in Go.\<close>

datatype error = NilFunctionCall

section \<open>Drop behaviour (drop.go)\<close>

record DropHandler =
  OnDropEnter :: "DragEventHook option"
  OnDropHover :: "DragEventHook option"
  OnDropLeave :: "DragEventHook option"
  OnDropRelease :: "DragEventHook option"
  OnDropAccept :: "DragEventHook option"
  OnDropDeny :: "DragEventHook option"
  IsAcceptable :: "(InteractionState \<Rightarrow> DragEvent \<Rightarrow> bool) option"
  OnDropEnterEvent :: "DropEventHook option"
  OnDropHoverEvent :: "DropEventHook option"
  OnDropLeaveEvent :: "DropEventHook option"
  OnDropReleaseEvent :: "DropEventHook option"
  OnDropAcceptEvent :: "DropEventHook option"
  OnDropDenyEvent :: "DropEventHook option"
  AcceptedDropTypes :: "string list"
  EmitMessages :: bool

text \<open>The \<open>for _, dropType := range h.AcceptedDropTypes\<close> loop of \<open>DefaultIsAcceptable\<close>.\<close>

fun acceptedLoop :: "string list \<Rightarrow> string \<Rightarrow> bool" where
  "acceptedLoop [] dragType = False"
| "acceptedLoop (dropType # rest) dragType =
     (if dragType = dropType then True else acceptedLoop rest dragType)"

definition DefaultIsAcceptable :: "DropHandler \<Rightarrow> InteractionState \<Rightarrow> DragEvent \<Rightarrow> bool" where
  "DefaultIsAcceptable h s dragEvent = acceptedLoop (AcceptedDropTypes h) (DragType dragEvent)"

definition HandleIsAcceptable :: "DropHandler \<Rightarrow> InteractionState \<Rightarrow> DragEvent \<Rightarrow> bool" where
  "HandleIsAcceptable h s dragEvent =
     (case IsAcceptable h of
        Some f \<Rightarrow> f s dragEvent
      | None \<Rightarrow> DefaultIsAcceptable h s dragEvent)"

text \<open>
  The closure of the default local drop handlers that reads the validity flag when run
  (enter, hover, leave, release), and the one of accept and deny, which carries a constant.
  \<open>DropType\<close> is left at Go's zero value.
\<close>

definition dropProducer :: "DropEventType \<Rightarrow> DragEvent \<Rightarrow> Producer" where
  "dropProducer kind dragEvent =
     (\<lambda>interaction. DropEventMsg
        \<lparr>DropEvent.ID = InteractionState.ID interaction, DropEvent.EventType = kind,
         DropType = '''', Acceptable = IsValidDrop interaction, DragEvent = dragEvent\<rparr>)"

definition dropProducerConst :: "DropEventType \<Rightarrow> bool \<Rightarrow> DragEvent \<Rightarrow> Producer" where
  "dropProducerConst kind acceptable dragEvent =
     (\<lambda>interaction. DropEventMsg
        \<lparr>DropEvent.ID = InteractionState.ID interaction, DropEvent.EventType = kind,
         DropType = '''', Acceptable = acceptable, DragEvent = dragEvent\<rparr>)"

definition DefaultDropEnter :: "DropHandler \<Rightarrow> DragEventHook" where
  "DefaultDropEnter h s dragEvent =
     (let s1 = s\<lparr>IsBelowDrop := True\<rparr>;
          s2 = s1\<lparr>IsValidDrop := HandleIsAcceptable h s1 dragEvent\<rparr>
      in (s2, if EmitMessages h then [dropProducer DropEnter dragEvent] else []))"

definition HandleDropEnter :: "DropHandler \<Rightarrow> DragEventHook" where
  "HandleDropEnter h s dragEvent =
     (case OnDropEnter h of
        Some f \<Rightarrow> f s dragEvent
      | None \<Rightarrow> DefaultDropEnter h s dragEvent)"

definition DefaultDropHover :: "DropHandler \<Rightarrow> DragEventHook" where
  "DefaultDropHover h s dragEvent =
     (let s1 = s\<lparr>IsBelowDrop := True\<rparr>;
          s2 = s1\<lparr>IsValidDrop := HandleIsAcceptable h s1 dragEvent\<rparr>
      in (s2, if EmitMessages h then [dropProducer DropHover dragEvent] else []))"

definition HandleDropHover :: "DropHandler \<Rightarrow> DragEventHook" where
  "HandleDropHover h s dragEvent =
     (case OnDropHover h of
        Some f \<Rightarrow> f s dragEvent
      | None \<Rightarrow> DefaultDropHover h s dragEvent)"

text \<open>
  \<open>DefaultDropLeave\<close>: the closure is built between the two assignments, and run by the
  host loop after both.
\<close>

definition DefaultDropLeave :: "DropHandler \<Rightarrow> DragEventHook" where
  "DefaultDropLeave h s dragEvent =
     (let s1 = s\<lparr>IsBelowDrop := False\<rparr>;
          cmd = (if EmitMessages h then [dropProducer DropLeave dragEvent] else []);
          s2 = s1\<lparr>IsValidDrop := False\<rparr>
      in (s2, cmd))"

definition HandleDropLeave :: "DropHandler \<Rightarrow> DragEventHook" where
  "HandleDropLeave h s dragEvent =
     (case OnDropLeave h of
        Some f \<Rightarrow> f s dragEvent
      | None \<Rightarrow> DefaultDropLeave h s dragEvent)"

definition DefaultDropAccept :: "DropHandler \<Rightarrow> DragEventHook" where
  "DefaultDropAccept h s dragEvent =
     (let cmd = (if EmitMessages h then [dropProducerConst DropAccept True dragEvent] else []);
          s1 = s\<lparr>IsBelowDrop := False\<rparr>;
          s2 = s1\<lparr>IsValidDrop := False\<rparr>
      in (s2, cmd))"

definition DefaultDropDeny :: "DropHandler \<Rightarrow> DragEventHook" where
  "DefaultDropDeny h s dragEvent =
     (let cmd = (if EmitMessages h then [dropProducerConst DropDeny False dragEvent] else []);
          s1 = s\<lparr>IsBelowDrop := False\<rparr>;
          s2 = s1\<lparr>IsValidDrop := False\<rparr>
      in (s2, cmd))"

text \<open>
  The release chain carries a dispatch log beside the result: every entry into
  \<open>HandleDropAccept\<close> or \<open>HandleDropDeny\<close> is recorded, in order. The log is an
  observer of the control flow only; state and commands do not depend on it.
\<close>

type_synonym DropDispatched = "(InteractionState \<times> Cmd) \<times> DropEventType list"

definition HandleDropAccept :: "DropHandler \<Rightarrow> InteractionState \<Rightarrow> DragEvent \<Rightarrow> DropDispatched" where
  "HandleDropAccept h s dragEvent =
     (case OnDropAccept h of
        Some f \<Rightarrow> (f s dragEvent, [DropAccept])
      | None \<Rightarrow> (DefaultDropAccept h s dragEvent, [DropAccept]))"

definition HandleDropDeny :: "DropHandler \<Rightarrow> InteractionState \<Rightarrow> DragEvent \<Rightarrow> DropDispatched" where
  "HandleDropDeny h s dragEvent =
     (case OnDropDeny h of
        Some f \<Rightarrow> (f s dragEvent, [DropDeny])
      | None \<Rightarrow> (DefaultDropDeny h s dragEvent, [DropDeny]))"

definition DefaultDropRelease :: "DropHandler \<Rightarrow> InteractionState \<Rightarrow> DragEvent \<Rightarrow> DropDispatched" where
  "DefaultDropRelease h s dragEvent =
     (let s1 = s\<lparr>IsValidDrop := HandleIsAcceptable h s dragEvent\<rparr>;
          cmds = (if EmitMessages h then [dropProducer DropRelease dragEvent] else []);
          ((s2, cmd), dispatched) =
             (if IsValidDrop s1 then HandleDropAccept h s1 dragEvent
              else HandleDropDeny h s1 dragEvent)
      in ((s2, cmds @ cmd), dispatched))"

definition HandleDropRelease :: "DropHandler \<Rightarrow> InteractionState \<Rightarrow> DragEvent \<Rightarrow> DropDispatched" where
  "HandleDropRelease h s dragEvent =
     (case OnDropRelease h of
        Some f \<Rightarrow> (f s dragEvent, [])
      | None \<Rightarrow> DefaultDropRelease h s dragEvent)"

subsection \<open>External drop events\<close>

definition DefaultDropEnterEvent :: "DropHandler \<Rightarrow> DropEventHook" where
  "DefaultDropEnterEvent h s dropEvent =
     (s\<lparr>IsAboveDrop := True, IsValidDrop := Acceptable dropEvent\<rparr>, [])"

text \<open>\<open>HandleDropEnterEvent\<close> returns the element untouched when no hook is set.\<close>

definition HandleDropEnterEvent :: "DropHandler \<Rightarrow> DropEventHook" where
  "HandleDropEnterEvent h s dropEvent =
     (case OnDropEnterEvent h of
        Some f \<Rightarrow> f s dropEvent
      | None \<Rightarrow> (s, []))"

definition DefaultDropHoverEvent :: "DropHandler \<Rightarrow> DropEventHook" where
  "DefaultDropHoverEvent h s dropEvent =
     (s\<lparr>IsAboveDrop := True, IsValidDrop := Acceptable dropEvent\<rparr>, [])"

text \<open>
  \<open>HandleDropHoverEvent\<close> tests \<open>h.OnDropEnterEvent != nil\<close> and then calls
  \<open>h.OnDropHoverEvent\<close>; calling it when it is nil panics.
\<close>

definition HandleDropHoverEvent ::
  "DropHandler \<Rightarrow> InteractionState \<Rightarrow> DropEvent \<Rightarrow> error + (InteractionState \<times> Cmd)" where
  "HandleDropHoverEvent h s dropEvent =
     (if OnDropEnterEvent h \<noteq> None then
        (case OnDropHoverEvent h of
           Some f \<Rightarrow> Inr (f s dropEvent)
         | None \<Rightarrow> Inl NilFunctionCall)
      else Inr (DefaultDropHoverEvent h s dropEvent))"

definition DefaultDropLeaveEvent :: "DropHandler \<Rightarrow> DropEventHook" where
  "DefaultDropLeaveEvent h s dropEvent =
     (s\<lparr>IsAboveDrop := False, IsValidDrop := Acceptable dropEvent\<rparr>, [])"

definition HandleDropLeaveEvent :: "DropHandler \<Rightarrow> DropEventHook" where
  "HandleDropLeaveEvent h s dropEvent =
     (case OnDropLeaveEvent h of
        Some f \<Rightarrow> f s dropEvent
      | None \<Rightarrow> DefaultDropLeaveEvent h s dropEvent)"

definition DefaultDropReleaseEvent :: "DropHandler \<Rightarrow> DropEventHook" where
  "DefaultDropReleaseEvent h s dropEvent =
     (s\<lparr>IsAboveDrop := False, IsValidDrop := False\<rparr>, [])"

definition HandleDropReleaseEvent :: "DropHandler \<Rightarrow> DropEventHook" where
  "HandleDropReleaseEvent h s dropEvent =
     (case OnDropReleaseEvent h of
        Some f \<Rightarrow> f s dropEvent
      | None \<Rightarrow> DefaultDropReleaseEvent h s dropEvent)"

definition DefaultDropAcceptEvent :: "DropHandler \<Rightarrow> DropEventHook" where
  "DefaultDropAcceptEvent h s dropEvent =
     (s\<lparr>IsAboveDrop := False, IsValidDrop := False\<rparr>, [])"

definition HandleDropAcceptEvent :: "DropHandler \<Rightarrow> DropEventHook" where
  "HandleDropAcceptEvent h s dropEvent =
     (case OnDropAcceptEvent h of
        Some f \<Rightarrow> f s dropEvent
      | None \<Rightarrow> DefaultDropAcceptEvent h s dropEvent)"

definition DefaultDropDenyEvent :: "DropHandler \<Rightarrow> DropEventHook" where
  "DefaultDropDenyEvent h s dropEvent =
     (s\<lparr>IsAboveDrop := False, IsValidDrop := False\<rparr>, [])"

definition HandleDropDenyEvent :: "DropHandler \<Rightarrow> DropEventHook" where
  "HandleDropDenyEvent h s dropEvent =
     (case OnDropDenyEvent h of
        Some f \<Rightarrow> f s dropEvent
      | None \<Rightarrow> DefaultDropDenyEvent h s dropEvent)"

section \<open>Click behaviour (click.go)\<close>

record ClickHandler =
  OnClick :: "MouseHook option"
  OnDoubleClick :: "MouseHook option"
  OnRightClick :: "MouseHook option"
  OnClickEvent :: "MouseHook option"
  OnDoubleClickEvent :: "MouseHook option"
  OnRightClickEvent :: "MouseHook option"
  EmitMessages :: bool

definition DefaultClick :: "ClickHandler \<Rightarrow> MouseHook" where
  "DefaultClick h s mouseMsg =
     (let s1 = s\<lparr>IsSelected := True\<rparr>
      in if ClickHandler.EmitMessages h then
           (s1, [\<lambda>interaction. ClickEventMsg
                   \<lparr>ClickEvent.ID = InteractionState.ID interaction,
                    ClickEvent.EventType = ClickEventType.Click,
                    ClickEvent.MouseMsg = mouseMsg\<rparr>])
         else (s1, []))"

definition HandleClick :: "ClickHandler \<Rightarrow> MouseHook" where
  "HandleClick h s mouseMsg =
     (case OnClick h of
        Some f \<Rightarrow> f s mouseMsg
      | None \<Rightarrow> DefaultClick h s mouseMsg)"

text \<open>
  The dispatcher calls the click listener through the interface \<open>ClickEventAware\<close>,
  whose three methods take a \<open>ClickEvent\<close>; the slot holds any implementation of it.
\<close>

record ClickEventAware =
  HandleClickEvent :: ClickEventHook
  HandleDoubleClickEvent :: ClickEventHook
  HandleRightClickEvent :: ClickEventHook

section \<open>Hover behaviour (hover.go)\<close>

record HoverHandler =
  OnMouseEnter :: "MouseHook option"
  OnMouseHover :: "MouseHook option"
  OnMouseLeave :: "MouseHook option"
  OnMouseEnterEvent :: "HoverEventHook option"
  OnMouseHoverEvent :: "HoverEventHook option"
  OnMouseLeaveEvent :: "HoverEventHook option"
  EmitMessages :: bool

definition hoverProducer :: "HoverEventType \<Rightarrow> MouseMsg \<Rightarrow> Producer" where
  "hoverProducer kind mouseMsg =
     (\<lambda>interaction. HoverEventMsg
        \<lparr>HoverEvent.ID = InteractionState.ID interaction, HoverEvent.EventType = kind,
         HoverEvent.MouseMsg = mouseMsg\<rparr>)"

definition DefaultMouseEnter :: "HoverHandler \<Rightarrow> MouseHook" where
  "DefaultMouseEnter h s mouseMsg =
     (let s1 = s\<lparr>IsHovered := True\<rparr>
      in if HoverHandler.EmitMessages h then (s1, [hoverProducer MouseEnter mouseMsg])
         else (s1, []))"

definition HandleMouseEnter :: "HoverHandler \<Rightarrow> MouseHook" where
  "HandleMouseEnter h s mouseMsg =
     (case OnMouseEnter h of
        Some f \<Rightarrow> f s mouseMsg
      | None \<Rightarrow> DefaultMouseEnter h s mouseMsg)"

definition DefaultMouseHover :: "HoverHandler \<Rightarrow> MouseHook" where
  "DefaultMouseHover h s mouseMsg =
     (let s1 = s\<lparr>IsHovered := True\<rparr>
      in if HoverHandler.EmitMessages h then (s1, [hoverProducer MouseHover mouseMsg])
         else (s1, []))"

definition HandleMouseHover :: "HoverHandler \<Rightarrow> MouseHook" where
  "HandleMouseHover h s mouseMsg =
     (case OnMouseHover h of
        Some f \<Rightarrow> f s mouseMsg
      | None \<Rightarrow> DefaultMouseHover h s mouseMsg)"

definition DefaultMouseLeave :: "HoverHandler \<Rightarrow> MouseHook" where
  "DefaultMouseLeave h s mouseMsg =
     (let s1 = s\<lparr>IsHovered := False\<rparr>
      in if HoverHandler.EmitMessages h then (s1, [hoverProducer MouseLeave mouseMsg])
         else (s1, []))"

definition HandleMouseLeave :: "HoverHandler \<Rightarrow> MouseHook" where
  "HandleMouseLeave h s mouseMsg =
     (case OnMouseLeave h of
        Some f \<Rightarrow> f s mouseMsg
      | None \<Rightarrow> DefaultMouseLeave h s mouseMsg)"

definition HandleMouseEnterEvent :: "HoverHandler \<Rightarrow> HoverEventHook" where
  "HandleMouseEnterEvent h s hoverEvent =
     (case OnMouseEnterEvent h of
        Some f \<Rightarrow> f s hoverEvent
      | None \<Rightarrow> (s, []))"

definition HandleMouseHoverEvent :: "HoverHandler \<Rightarrow> HoverEventHook" where
  "HandleMouseHoverEvent h s hoverEvent =
     (case OnMouseHoverEvent h of
        Some f \<Rightarrow> f s hoverEvent
      | None \<Rightarrow> (s, []))"

definition HandleMouseLeaveEvent :: "HoverHandler \<Rightarrow> HoverEventHook" where
  "HandleMouseLeaveEvent h s hoverEvent =
     (case OnMouseLeaveEvent h of
        Some f \<Rightarrow> f s hoverEvent
      | None \<Rightarrow> (s, []))"

section \<open>Drag behaviour (drag.go)\<close>

record DragHandler =
  OnDragStart :: "MouseHook option"
  OnDragMove :: "MouseHook option"
  OnDragEnd :: "MouseHook option"
  OnDragStartEvent :: "DragEventHook option"
  OnDragMoveEvent :: "DragEventHook option"
  OnDragEndEvent :: "DragEventHook option"
  EmitMessages :: bool

text \<open>
  The drag closures read \<open>interaction.DragOrigin\<close> and \<open>interaction.DragOffset\<close> when
  run; \<open>DragType\<close> is left at Go's zero value.
\<close>

definition dragProducer :: "DragEventType \<Rightarrow> MouseMsg \<Rightarrow> Producer" where
  "dragProducer kind mouseMsg =
     (\<lambda>interaction. DragEventMsg
        \<lparr>DragEvent.ID = InteractionState.ID interaction, DragEvent.EventType = kind,
         DragType = '''',
         DragEvent.DragOrigin = InteractionState.DragOrigin interaction,
         DragEvent.DragOffset = InteractionState.DragOffset interaction,
         DragEvent.MouseMsg = mouseMsg\<rparr>)"

definition DefaultDragStart :: "DragHandler \<Rightarrow> MouseHook" where
  "DefaultDragStart h s mouseMsg =
     (let s1 = s\<lparr>IsDragging := True\<rparr>;
          s2 = s1\<lparr>InteractionState.DragOrigin :=
                   \<lparr>Point.X = MouseMsg.X mouseMsg, Point.Y = MouseMsg.Y mouseMsg\<rparr>\<rparr>;
          s3 = s2\<lparr>InteractionState.DragOffset := \<lparr>Point.X = 0, Point.Y = 0\<rparr>\<rparr>
      in if DragHandler.EmitMessages h then (s3, [dragProducer DragStart mouseMsg])
         else (s3, []))"

text \<open>
  The three local entry points of \<open>DragHandler\<close> declare a third parameter
  \<open>dragEvent\<close> that their bodies never read and that the dispatcher's calls do not
  pass; it is left out.
\<close>

definition HandleDragStart :: "DragHandler \<Rightarrow> MouseHook" where
  "HandleDragStart h s mouseMsg =
     (case OnDragStart h of
        Some f \<Rightarrow> f s mouseMsg
      | None \<Rightarrow> DefaultDragStart h s mouseMsg)"

definition DefaultDragMove :: "DragHandler \<Rightarrow> MouseHook" where
  "DefaultDragMove h s mouseMsg =
     (let s1 = s\<lparr>IsDragging := True\<rparr>;
          s2 = s1\<lparr>InteractionState.DragOffset :=
                   \<lparr>Point.X = MouseMsg.X mouseMsg - Point.X (InteractionState.DragOrigin s1),
                    Point.Y = MouseMsg.Y mouseMsg - Point.Y (InteractionState.DragOrigin s1)\<rparr>\<rparr>
      in if DragHandler.EmitMessages h then (s2, [dragProducer DragMove mouseMsg])
         else (s2, []))"

definition HandleDragMove :: "DragHandler \<Rightarrow> MouseHook" where
  "HandleDragMove h s mouseMsg =
     (case OnDragMove h of
        Some f \<Rightarrow> f s mouseMsg
      | None \<Rightarrow> DefaultDragMove h s mouseMsg)"

definition DefaultDragEnd :: "DragHandler \<Rightarrow> MouseHook" where
  "DefaultDragEnd h s mouseMsg =
     (let s1 = s\<lparr>IsDragging := False\<rparr>
      in if DragHandler.EmitMessages h then (s1, [dragProducer DragEnd mouseMsg])
         else (s1, []))"

definition HandleDragEnd :: "DragHandler \<Rightarrow> MouseHook" where
  "HandleDragEnd h s mouseMsg =
     (case OnDragEnd h of
        Some f \<Rightarrow> f s mouseMsg
      | None \<Rightarrow> DefaultDragEnd h s mouseMsg)"

definition HandleDragStartEvent :: "DragHandler \<Rightarrow> DragEventHook" where
  "HandleDragStartEvent h s dragEvent =
     (case OnDragStartEvent h of
        Some f \<Rightarrow> f s dragEvent
      | None \<Rightarrow> (s, []))"

definition HandleDragMoveEvent :: "DragHandler \<Rightarrow> DragEventHook" where
  "HandleDragMoveEvent h s dragEvent =
     (case OnDragMoveEvent h of
        Some f \<Rightarrow> f s dragEvent
      | None \<Rightarrow> (s, []))"

definition HandleDragEndEvent :: "DragHandler \<Rightarrow> DragEventHook" where
  "HandleDragEndEvent h s dragEvent =
     (case OnDragEndEvent h of
        Some f \<Rightarrow> f s dragEvent
      | None \<Rightarrow> (s, []))"

section \<open>The dispatcher\<close>

text \<open>
  Modelled from the spec: the slots of \<open>struct Interactable\<close> (its declaration is not
  among the source files), under the names the dispatcher reads: the four capability
  slots, the four event-awareness slots and the three override hooks; \<open>nil\<close> is
  \<open>None\<close>. The data fields are the component \<open>state\<close>.
\<close>

record Interactable =
  state :: InteractionState
  Click :: "ClickHandler option"
  Hover :: "HoverHandler option"
  Drag :: "DragHandler option"
  Drop :: "DropHandler option"
  ClickEvent :: "ClickEventAware option"
  HoverEvent :: "HoverHandler option"
  DragEvent :: "DragHandler option"
  DropEvent :: "DropHandler option"
  IsInside :: "(InteractionState \<Rightarrow> MouseMsg \<Rightarrow> bool) option"
  LocalHandler :: "MouseHook option"
  ExternalHandler :: "MouseHook option"

text \<open>
  Modelled from the spec: \<open>DefaultIsInside\<close> is not among the source files. It
  delegates to the external bounds resolver \<open>inBounds(id, pointerMessage)\<close>, keyed by the
  element's ID; the resolver is a parameter of the model.
\<close>

type_synonym BoundsResolver = "string \<Rightarrow> MouseMsg \<Rightarrow> bool"

definition DefaultIsInside :: "BoundsResolver \<Rightarrow> InteractionState \<Rightarrow> MouseMsg \<Rightarrow> bool" where
  "DefaultIsInside inBounds s mouseMsg = inBounds (InteractionState.ID s) mouseMsg"

text \<open>The bounds test at the head of \<open>DefaultLocalHandler\<close>.\<close>

definition isInside :: "BoundsResolver \<Rightarrow> Interactable \<Rightarrow> MouseMsg \<Rightarrow> bool" where
  "isInside inBounds i mouseMsg =
     (case IsInside i of
        Some f \<Rightarrow> f (state i) mouseMsg
      | None \<Rightarrow> DefaultIsInside inBounds (state i) mouseMsg)"

text \<open>
  \<open>DefaultLocalHandler\<close>. The receiver \<open>i\<close> is the interaction of the element it is
  called for (\<open>button.interaction.HandleMouseMsg(button, msg)\<close>), so the writes through
  \<open>i\<close> and those the handlers make through \<open>element.GetInteraction()\<close> go to the same
  struct, and the closing \<open>*interaction = *i\<close> changes nothing. The three branches of the
  \<open>switch\<close> thread the state through the handlers in the order of the source.
\<close>

definition motionBranch :: "Interactable \<Rightarrow> bool \<Rightarrow> MouseMsg \<Rightarrow> InteractionState \<times> Cmd" where
  "motionBranch i inside mouseMsg =
     (let s = state i;
          (s1, cmds1) =
            (case Hover i of
               Some h \<Rightarrow>
                 (if inside then
                    (let (sa, ca) =
                           (if \<not> IsHovered s then HandleMouseEnter h s mouseMsg else (s, []));
                         (sb, cb) = HandleMouseHover h sa mouseMsg
                     in (sb, ca @ cb))
                  else if IsHovered s then HandleMouseLeave h s mouseMsg
                  else (s, []))
             | None \<Rightarrow> (s, []))
      in (case Drag i of
            Some d \<Rightarrow>
              (if IsDragging s1 then
                 (let (s2, c2) = HandleDragMove d s1 mouseMsg in (s2, cmds1 @ c2))
               else (s1, cmds1))
          | None \<Rightarrow> (s1, cmds1)))"

definition pressBranch :: "Interactable \<Rightarrow> bool \<Rightarrow> MouseMsg \<Rightarrow> InteractionState \<times> Cmd" where
  "pressBranch i inside mouseMsg =
     (let s = state i
      in (case Click i of
            Some c \<Rightarrow>
              (if inside then
                 (let (s1, c1) = HandleClick c s mouseMsg
                  in (case Drag i of
                        Some d \<Rightarrow>
                          (let (s2, c2) = HandleDragStart d (s1\<lparr>IsDragging := True\<rparr>) mouseMsg
                           in (s2, c1 @ c2))
                      | None \<Rightarrow> (s1, c1)))
               else (s, []))
          | None \<Rightarrow> (s, [])))"

definition releaseBranch :: "Interactable \<Rightarrow> MouseMsg \<Rightarrow> InteractionState \<times> Cmd" where
  "releaseBranch i mouseMsg =
     (let s = state i
      in (case Drag i of
            Some d \<Rightarrow>
              (if IsDragging s then HandleDragEnd d (s\<lparr>IsDragging := False\<rparr>) mouseMsg
               else (s, []))
          | None \<Rightarrow> (s, [])))"

definition DefaultLocalHandler ::
  "BoundsResolver \<Rightarrow> Interactable \<Rightarrow> MouseMsg \<Rightarrow> Interactable \<times> Cmd" where
  "DefaultLocalHandler inBounds i mouseMsg =
     (if Click i = None \<and> Hover i = None \<and> Drag i = None \<and> Drop i = None then (i, [])
      else
        (let inside = isInside inBounds i mouseMsg;
             (s', cmds) =
               (case Action mouseMsg of
                  MouseActionMotion \<Rightarrow> motionBranch i inside mouseMsg
                | MouseActionPress \<Rightarrow> pressBranch i inside mouseMsg
                | MouseActionRelease \<Rightarrow> releaseBranch i mouseMsg)
         in (i\<lparr>state := s'\<rparr>, cmds)))"

definition HandleMouseMsg ::
  "BoundsResolver \<Rightarrow> Interactable \<Rightarrow> MouseMsg \<Rightarrow> Interactable \<times> Cmd" where
  "HandleMouseMsg inBounds i mouseMsg =
     (case LocalHandler i of
        Some f \<Rightarrow> (let (s', cmd) = f (state i) mouseMsg in (i\<lparr>state := s'\<rparr>, cmd))
      | None \<Rightarrow> DefaultLocalHandler inBounds i mouseMsg)"

text \<open>
  \<open>DefaultExternalHandler\<close>: a type switch on the message, then a switch on the event
  kind. Only \<open>HandleDropHoverEvent\<close> can panic.
\<close>

definition DefaultExternalHandler :: "Interactable \<Rightarrow> Msg \<Rightarrow> error + (Interactable \<times> Cmd)" where
  "DefaultExternalHandler i msg =
     (if ClickEvent i = None \<and> HoverEvent i = None \<and> DragEvent i = None \<and> DropEvent i = None
      then Inr (i, [])
      else
        (let s = state i;
             r =
               (case msg of
                  ClickEventMsg e \<Rightarrow>
                    (case ClickEvent i of
                       Some l \<Rightarrow>
                         (case ClickEvent.EventType e of
                            ClickEventType.Click \<Rightarrow> Inr (HandleClickEvent l s e)
                          | DoubleClick \<Rightarrow> Inr (HandleDoubleClickEvent l s e)
                          | RightClick \<Rightarrow> Inr (HandleRightClickEvent l s e))
                     | None \<Rightarrow> Inr (s, []))
                | HoverEventMsg e \<Rightarrow>
                    (case HoverEvent i of
                       Some l \<Rightarrow>
                         (case HoverEvent.EventType e of
                            MouseEnter \<Rightarrow> Inr (HandleMouseEnterEvent l s e)
                          | MouseHover \<Rightarrow> Inr (HandleMouseHoverEvent l s e)
                          | MouseLeave \<Rightarrow> Inr (HandleMouseLeaveEvent l s e))
                     | None \<Rightarrow> Inr (s, []))
                | DragEventMsg e \<Rightarrow>
                    (case DragEvent i of
                       Some l \<Rightarrow>
                         (case DragEvent.EventType e of
                            DragStart \<Rightarrow> Inr (HandleDragStartEvent l s e)
                          | DragMove \<Rightarrow> Inr (HandleDragMoveEvent l s e)
                          | DragEnd \<Rightarrow> Inr (HandleDragEndEvent l s e))
                     | None \<Rightarrow> Inr (s, []))
                | DropEventMsg e \<Rightarrow>
                    (case DropEvent i of
                       Some l \<Rightarrow>
                         (case DropEvent.EventType e of
                            DropEnter \<Rightarrow> Inr (HandleDropEnterEvent l s e)
                          | DropHover \<Rightarrow> HandleDropHoverEvent l s e
                          | DropLeave \<Rightarrow> Inr (HandleDropLeaveEvent l s e)
                          | DropRelease \<Rightarrow> Inr (HandleDropReleaseEvent l s e)
                          | DropAccept \<Rightarrow> Inr (HandleDropAcceptEvent l s e)
                          | DropDeny \<Rightarrow> Inr (HandleDropDenyEvent l s e))
                     | None \<Rightarrow> Inr (s, []))
                | MouseMsgMsg m \<Rightarrow> Inr (s, [])
                | OtherMsg \<Rightarrow> Inr (s, []))
         in (case r of
               Inl e \<Rightarrow> Inl e
             | Inr (s', cmds) \<Rightarrow> Inr (i\<lparr>state := s'\<rparr>, cmds))))"

text \<open>
  \<open>HandleExternalEvent\<close> takes a \<open>tea.MouseMsg\<close>, tests \<open>i.LocalHandler != nil\<close> and
  then calls \<open>i.ExternalHandler\<close>; otherwise it hands the pointer message to the default
  routing.
\<close>

definition HandleExternalEvent :: "Interactable \<Rightarrow> MouseMsg \<Rightarrow> error + (Interactable \<times> Cmd)" where
  "HandleExternalEvent i mouseMsg =
     (if LocalHandler i \<noteq> None then
        (case ExternalHandler i of
           Some f \<Rightarrow> (let (s', cmd) = f (state i) mouseMsg in Inr (i\<lparr>state := s'\<rparr>, cmd))
         | None \<Rightarrow> Inl NilFunctionCall)
      else DefaultExternalHandler i (MouseMsgMsg mouseMsg))"

section \<open>Concrete elements, handlers and messages\<close>

text \<open>
  The values the statements below are evaluated on. The handlers are Go's zero values
  (\<open>&DropHandler{}\<close>, \<open>&ClickHandler{}\<close>, ...: every hook nil, \<open>EmitMessages\<close>
  false); the element is \<open>Interactable{ID: "el"}\<close>, all flags false and no slot set.
\<close>

definition zeroPoint :: Point where
  "zeroPoint = \<lparr>Point.X = 0, Point.Y = 0\<rparr>"

definition zeroState :: InteractionState where
  "zeroState =
     \<lparr>InteractionState.ID = ''el'', LastClickTime = 0, DoubleClickThreshold = 0, ClickCount = 0,
      IsSelected = False, IsHovered = False, IsDragging = False,
      InteractionState.DragOrigin = zeroPoint, InteractionState.DragOffset = zeroPoint,
      IsValidDrop = False, IsAboveDrop = False, IsBelowDrop = False\<rparr>"

definition mouseAt :: "MouseAction \<Rightarrow> go_int \<Rightarrow> go_int \<Rightarrow> MouseMsg" where
  "mouseAt a x y =
     \<lparr>MouseMsg.X = x, MouseMsg.Y = y, Shift = False, Alt = False, Ctrl = False,
      Action = a, Button = 1\<rparr>"

definition dragOf :: "string \<Rightarrow> DragEvent" where
  "dragOf t =
     \<lparr>DragEvent.ID = ''src'', DragEvent.EventType = DragMove, DragType = t,
      DragEvent.DragOrigin = zeroPoint, DragEvent.DragOffset = zeroPoint,
      DragEvent.MouseMsg = mouseAt MouseActionMotion 3 4\<rparr>"

definition dropOf :: "DropEventType \<Rightarrow> bool \<Rightarrow> DropEvent" where
  "dropOf kind acceptable =
     \<lparr>DropEvent.ID = ''tgt'', DropEvent.EventType = kind, DropType = '''',
      Acceptable = acceptable, DropEvent.DragEvent = dragOf ''file''\<rparr>"

definition zeroDropHandler :: DropHandler where
  "zeroDropHandler =
     \<lparr>OnDropEnter = None, OnDropHover = None, OnDropLeave = None, OnDropRelease = None,
      OnDropAccept = None, OnDropDeny = None, IsAcceptable = None,
      OnDropEnterEvent = None, OnDropHoverEvent = None, OnDropLeaveEvent = None,
      OnDropReleaseEvent = None, OnDropAcceptEvent = None, OnDropDenyEvent = None,
      AcceptedDropTypes = [], DropHandler.EmitMessages = False\<rparr>"




definition zeroInteractable :: Interactable where
  "zeroInteractable =
     \<lparr>state = zeroState, Click = None, Hover = None, Drag = None, Drop = None,
      ClickEvent = None, HoverEvent = None, DragEvent = None, DropEvent = None,
      IsInside = None, LocalHandler = None, ExternalHandler = None\<rparr>"


text \<open>Custom hooks used as probes.\<close>

definition selectHook :: MouseHook where
  "selectHook s mouseMsg = (s\<lparr>IsSelected := True\<rparr>, [])"

definition idleHook :: MouseHook where
  "idleHook s mouseMsg = (s, [])"

definition markDropHook :: DropEventHook where
  "markDropHook s dropEvent = (s\<lparr>IsSelected := True\<rparr>, [])"

text \<open>A drop target that emits events and accepts files, and an element under a valid drop.\<close>

definition fileDropHandler :: DropHandler where
  "fileDropHandler =
     zeroDropHandler\<lparr>AcceptedDropTypes := [''file''], DropHandler.EmitMessages := True\<rparr>"

definition validTarget :: InteractionState where
  "validTarget = zeroState\<lparr>IsValidDrop := True, IsAboveDrop := True, IsBelowDrop := True\<rparr>"








section \<open>Drop acceptance\<close>

lemma acceptedLoop_set: "acceptedLoop ts d \<longleftrightarrow> d \<in> set ts"
  by (induction ts) auto

text \<open>
  Claim C8. For a \<open>DropHandler\<close> with no custom \<open>IsAcceptable\<close>, the acceptance
  predicate is true exactly when the event's \<open>DragType\<close> is a member of
  \<open>AcceptedDropTypes\<close>. It is a pure membership test: it does not depend on the
  element, nor on the order (or repetitions) of the accepted types; with an empty list it
  is false.
\<close>

theorem default_acceptance_is_membership:
  "IsAcceptable h = None \<Longrightarrow>
     (HandleIsAcceptable h s dragEvent \<longleftrightarrow> DragType dragEvent \<in> set (AcceptedDropTypes h)) \<and>
     (AcceptedDropTypes h = [] \<longrightarrow> \<not> HandleIsAcceptable h s dragEvent) \<and>
     (\<forall>ts' s'. set ts' = set (AcceptedDropTypes h) \<longrightarrow>
        HandleIsAcceptable (h\<lparr>AcceptedDropTypes := ts'\<rparr>) s' dragEvent
          = HandleIsAcceptable h s dragEvent)"
  by (simp add: HandleIsAcceptable_def DefaultIsAcceptable_def acceptedLoop_set)

theorem default_acceptance_is_membership_witness:
  "IsAcceptable (zeroDropHandler\<lparr>AcceptedDropTypes := [''folder'', ''file'']\<rparr>) = None \<and>
   HandleIsAcceptable (zeroDropHandler\<lparr>AcceptedDropTypes := [''folder'', ''file'']\<rparr>)
      zeroState (dragOf ''file'') \<and>
   \<not> HandleIsAcceptable (zeroDropHandler\<lparr>AcceptedDropTypes := [''folder'', ''file'']\<rparr>)
      zeroState (dragOf ''text'') \<and>
   set [''file'', ''folder''] = set [''folder'', ''file''] \<and>
   HandleIsAcceptable (zeroDropHandler\<lparr>AcceptedDropTypes := [''file'', ''folder'']\<rparr>)
      (zeroState\<lparr>IsHovered := True\<rparr>) (dragOf ''file'') \<and>
   IsAcceptable zeroDropHandler = None \<and> AcceptedDropTypes zeroDropHandler = [] \<and>
   \<not> HandleIsAcceptable zeroDropHandler zeroState (dragOf ''file'')"
proof -
  let ?h = "zeroDropHandler\<lparr>AcceptedDropTypes := [''folder'', ''file'']\<rparr>"
  have n: "IsAcceptable ?h = None" and n0: "IsAcceptable zeroDropHandler = None"
    and e0: "AcceptedDropTypes zeroDropHandler = []"
    and ts: "AcceptedDropTypes ?h = [''folder'', ''file'']"
    by (simp_all add: zeroDropHandler_def)
  have sw: "set [''file'', ''folder''] = set (AcceptedDropTypes ?h)"
    unfolding ts by (simp add: insert_commute)
  have upd: "?h\<lparr>AcceptedDropTypes := [''file'', ''folder'']\<rparr>
               = zeroDropHandler\<lparr>AcceptedDropTypes := [''file'', ''folder'']\<rparr>"
    by simp
  note member = default_acceptance_is_membership [OF n, THEN conjunct1]
  note indep = default_acceptance_is_membership
                 [OF n, THEN conjunct2, THEN conjunct2, rule_format, OF sw]
  note empty = default_acceptance_is_membership
                 [OF n0, THEN conjunct2, THEN conjunct1, rule_format, OF e0]
  have a: "HandleIsAcceptable ?h zeroState (dragOf ''file'')"
    unfolding member ts by (simp add: dragOf_def)
  have b: "\<not> HandleIsAcceptable ?h zeroState (dragOf ''text'')"
    unfolding member ts by (simp add: dragOf_def)
  have c: "HandleIsAcceptable (zeroDropHandler\<lparr>AcceptedDropTypes := [''file'', ''folder'']\<rparr>)
             (zeroState\<lparr>IsHovered := True\<rparr>) (dragOf ''file'')"
    using indep [of "zeroState\<lparr>IsHovered := True\<rparr>" "dragOf ''file''" zeroState] a
    unfolding upd by simp
  from n a b sw c n0 e0 empty show ?thesis
    unfolding ts by blast
qed

section \<open>External drop events\<close>

text \<open>
  Claim C10. \<open>HandleDropHoverEvent\<close> selects its branch by \<open>OnDropEnterEvent\<close>, not by
  \<open>OnDropHoverEvent\<close>. With \<open>OnDropEnterEvent\<close> set and \<open>OnDropHoverEvent\<close> nil, an
  external drop-hover event calls a nil function. With \<open>OnDropEnterEvent\<close> nil, the
  default external drop-hover behaviour runs whatever \<open>OnDropHoverEvent\<close> holds: a custom
  \<open>OnDropHoverEvent\<close> set alone is never invoked.
\<close>

theorem drop_hover_event_tests_enter_hook:
  "(OnDropEnterEvent h \<noteq> None \<and> OnDropHoverEvent h = None \<longrightarrow>
      HandleDropHoverEvent h s dropEvent = Inl NilFunctionCall) \<and>
   (OnDropEnterEvent h = None \<longrightarrow>
      HandleDropHoverEvent h s dropEvent
        = Inr (s\<lparr>IsAboveDrop := True, IsValidDrop := Acceptable dropEvent\<rparr>, []))"
  by (simp add: HandleDropHoverEvent_def DefaultDropHoverEvent_def)

theorem drop_hover_event_tests_enter_hook_witness:
  "OnDropEnterEvent (zeroDropHandler\<lparr>OnDropEnterEvent := Some markDropHook\<rparr>) \<noteq> None \<and>
   OnDropHoverEvent (zeroDropHandler\<lparr>OnDropEnterEvent := Some markDropHook\<rparr>) = None \<and>
   HandleDropHoverEvent (zeroDropHandler\<lparr>OnDropEnterEvent := Some markDropHook\<rparr>)
      zeroState (dropOf DropHover True) = Inl NilFunctionCall \<and>
   OnDropEnterEvent (zeroDropHandler\<lparr>OnDropHoverEvent := Some markDropHook\<rparr>) = None \<and>
   OnDropHoverEvent (zeroDropHandler\<lparr>OnDropHoverEvent := Some markDropHook\<rparr>) = Some markDropHook \<and>
   HandleDropHoverEvent (zeroDropHandler\<lparr>OnDropHoverEvent := Some markDropHook\<rparr>)
      zeroState (dropOf DropHover True)
     = Inr (zeroState\<lparr>IsAboveDrop := True, IsValidDrop := True\<rparr>, []) \<and>
   fst (markDropHook zeroState (dropOf DropHover True))
     \<noteq> zeroState\<lparr>IsAboveDrop := True, IsValidDrop := True\<rparr>"
  using drop_hover_event_tests_enter_hook
          [of "zeroDropHandler\<lparr>OnDropEnterEvent := Some markDropHook\<rparr>" zeroState "dropOf DropHover True"]
        drop_hover_event_tests_enter_hook
          [of "zeroDropHandler\<lparr>OnDropHoverEvent := Some markDropHook\<rparr>" zeroState "dropOf DropHover True"]
  by (simp add: zeroDropHandler_def dropOf_def markDropHook_def zeroState_def)

text \<open>
  Claim C3, at an input where the code departs from it. A \<open>DropHandler\<close> with no
  external-event function set receives an external drop-enter event whose
  \<open>Acceptable\<close> is true: \<open>HandleDropEnterEvent\<close> returns the element as it was, with
  \<open>IsAboveDrop\<close> and \<open>IsValidDrop\<close> still false. \<open>DefaultDropEnterEvent\<close>, which would set
  both, is never called.
\<close>

theorem drop_enter_event_default_never_runs:
  "OnDropEnterEvent zeroDropHandler = None \<and>
   Acceptable (dropOf DropEnter True) \<and>
   HandleDropEnterEvent zeroDropHandler zeroState (dropOf DropEnter True) = (zeroState, []) \<and>
   \<not> IsAboveDrop zeroState \<and> \<not> IsValidDrop zeroState \<and>
   fst (DefaultDropEnterEvent zeroDropHandler zeroState (dropOf DropEnter True))
     = zeroState\<lparr>IsAboveDrop := True, IsValidDrop := True\<rparr>"
  by (simp add: HandleDropEnterEvent_def DefaultDropEnterEvent_def zeroDropHandler_def
        zeroState_def dropOf_def)




section \<open>Local drop handling\<close>

text \<open>
  Claim C2, at an input where the code departs from it. A target under a valid drop
  (\<open>IsValidDrop\<close> true) with the default drop-leave behaviour and \<open>EmitMessages\<close> handles
  a local drop-leave: both flags are cleared, and the command it returns, run by the host
  loop on the element as the handler left it, yields a leave event whose \<open>Acceptable\<close> is
  false, not the value held before the reset: the closure reads
  \<open>interaction.IsValidDrop\<close> when it is run.
\<close>

theorem drop_leave_event_reads_reset_flag:
  "DropHandler.EmitMessages fileDropHandler \<and> OnDropLeave fileDropHandler = None \<and>
   IsValidDrop validTarget \<and>
   (case HandleDropLeave fileDropHandler validTarget (dragOf ''file'') of
      (s', cmd) \<Rightarrow>
        \<not> IsBelowDrop s' \<and> \<not> IsValidDrop s' \<and>
        runCmd cmd s' =
          [DropEventMsg \<lparr>DropEvent.ID = ''el'', DropEvent.EventType = DropLeave, DropType = '''',
                         Acceptable = False, DropEvent.DragEvent = dragOf ''file''\<rparr>])"
  by (simp add: HandleDropLeave_def DefaultDropLeave_def dropProducer_def runCmd_def
        fileDropHandler_def zeroDropHandler_def validTarget_def zeroState_def)

text \<open>
  Claim C5. With the default local release, accept, deny and acceptance behaviours, a
  local drop-release dispatches exactly once, to accept when the event's \<open>DragType\<close> is
  among the accepted types and to deny otherwise, never to both; the element ends with
  \<open>IsBelowDrop\<close> and \<open>IsValidDrop\<close> false. With \<open>EmitMessages\<close> the commands returned are
  the release closure followed by the accept (or deny) closure.
\<close>

theorem drop_release_dispatches_once:
  "OnDropRelease h = None \<Longrightarrow> OnDropAccept h = None \<Longrightarrow> OnDropDeny h = None \<Longrightarrow>
   IsAcceptable h = None \<Longrightarrow>
     (case HandleDropRelease h s dragEvent of
        ((s', cmd), dispatched) \<Rightarrow>
          dispatched =
            (if DragType dragEvent \<in> set (AcceptedDropTypes h) then [DropAccept] else [DropDeny]) \<and>
          \<not> IsBelowDrop s' \<and> \<not> IsValidDrop s' \<and>
          cmd =
            (if DropHandler.EmitMessages h then
               [dropProducer DropRelease dragEvent,
                if DragType dragEvent \<in> set (AcceptedDropTypes h)
                then dropProducerConst DropAccept True dragEvent
                else dropProducerConst DropDeny False dragEvent]
             else []))"
  by (simp add: HandleDropRelease_def DefaultDropRelease_def HandleDropAccept_def
        HandleDropDeny_def DefaultDropAccept_def DefaultDropDeny_def
        HandleIsAcceptable_def DefaultIsAcceptable_def acceptedLoop_set Let_def)

theorem drop_release_dispatches_once_witness:
  "OnDropRelease fileDropHandler = None \<and> OnDropAccept fileDropHandler = None \<and>
   OnDropDeny fileDropHandler = None \<and> IsAcceptable fileDropHandler = None \<and>
   IsBelowDrop validTarget \<and>
   snd (HandleDropRelease fileDropHandler validTarget (dragOf ''file'')) = [DropAccept] \<and>
   \<not> IsBelowDrop (fst (fst (HandleDropRelease fileDropHandler validTarget (dragOf ''file'')))) \<and>
   \<not> IsValidDrop (fst (fst (HandleDropRelease fileDropHandler validTarget (dragOf ''file'')))) \<and>
   snd (fst (HandleDropRelease fileDropHandler validTarget (dragOf ''file'')))
     = [dropProducer DropRelease (dragOf ''file''),
        dropProducerConst DropAccept True (dragOf ''file'')] \<and>
   snd (HandleDropRelease fileDropHandler validTarget (dragOf ''folder'')) = [DropDeny] \<and>
   \<not> IsBelowDrop (fst (fst (HandleDropRelease fileDropHandler validTarget (dragOf ''folder'')))) \<and>
   \<not> IsValidDrop (fst (fst (HandleDropRelease fileDropHandler validTarget (dragOf ''folder'')))) \<and>
   snd (fst (HandleDropRelease fileDropHandler validTarget (dragOf ''folder'')))
     = [dropProducer DropRelease (dragOf ''folder''),
        dropProducerConst DropDeny False (dragOf ''folder'')]"
proof -
  have n: "OnDropRelease fileDropHandler = None" "OnDropAccept fileDropHandler = None"
    "OnDropDeny fileDropHandler = None" "IsAcceptable fileDropHandler = None"
    and em: "DropHandler.EmitMessages fileDropHandler"
    and ts: "AcceptedDropTypes fileDropHandler = [''file'']"
    by (simp_all add: fileDropHandler_def zeroDropHandler_def)
  have b: "IsBelowDrop validTarget"
    by (simp add: validTarget_def)
  have t: "DragType (dragOf ''file'') = ''file''" "DragType (dragOf ''folder'') = ''folder''"
    by (simp_all add: dragOf_def)
  have yes: "DragType (dragOf ''file'') \<in> set (AcceptedDropTypes fileDropHandler)"
    and no: "DragType (dragOf ''folder'') \<notin> set (AcceptedDropTypes fileDropHandler)"
    unfolding t ts by simp_all
  from drop_release_dispatches_once [OF n, where s = validTarget and dragEvent = "dragOf ''file''"]
       drop_release_dispatches_once [OF n, where s = validTarget and dragEvent = "dragOf ''folder''"]
       n b em yes no
  show ?thesis
    by (simp add: case_prod_beta)
qed

section \<open>Dispatch\<close>

lemma HandleMouseMsg_default:
  "LocalHandler i = None \<Longrightarrow>
     HandleMouseMsg inBounds i mouseMsg = DefaultLocalHandler inBounds i mouseMsg"
  by (simp add: HandleMouseMsg_def)

lemma HandleMouseMsg_override:
  "LocalHandler i = Some f \<Longrightarrow>
     HandleMouseMsg inBounds i mouseMsg
       = (i\<lparr>state := fst (f (state i) mouseMsg)\<rparr>, snd (f (state i) mouseMsg))"
  by (simp add: HandleMouseMsg_def case_prod_beta)

text \<open>
  Claim C1, at two inputs where the code departs from it. \<open>HandleExternalEvent\<close> tests
  \<open>LocalHandler\<close>, not \<open>ExternalHandler\<close>. An element with only \<open>ExternalHandler\<close> set
  (a hook that selects the element) is returned unselected by the default routing: the
  hook is not run. An element with only \<open>LocalHandler\<close> set calls the nil
  \<open>ExternalHandler\<close>. (\<open>HandleMouseMsg\<close> does delegate as claimed: the two lemmas above.)
\<close>

theorem external_event_tests_local_handler:
  "LocalHandler (zeroInteractable\<lparr>ExternalHandler := Some selectHook\<rparr>) = None \<and>
   ExternalHandler (zeroInteractable\<lparr>ExternalHandler := Some selectHook\<rparr>) = Some selectHook \<and>
   HandleExternalEvent (zeroInteractable\<lparr>ExternalHandler := Some selectHook\<rparr>)
       (mouseAt MouseActionPress 3 4)
     = Inr (zeroInteractable\<lparr>ExternalHandler := Some selectHook\<rparr>, []) \<and>
   IsSelected (fst (selectHook zeroState (mouseAt MouseActionPress 3 4))) \<and>
   \<not> IsSelected (state (zeroInteractable\<lparr>ExternalHandler := Some selectHook\<rparr>)) \<and>
   LocalHandler (zeroInteractable\<lparr>LocalHandler := Some idleHook\<rparr>) = Some idleHook \<and>
   ExternalHandler (zeroInteractable\<lparr>LocalHandler := Some idleHook\<rparr>) = None \<and>
   HandleExternalEvent (zeroInteractable\<lparr>LocalHandler := Some idleHook\<rparr>)
       (mouseAt MouseActionPress 3 4)
     = Inl NilFunctionCall"
  by (simp add: HandleExternalEvent_def DefaultExternalHandler_def zeroInteractable_def
        selectHook_def zeroState_def)






section \<open>Repeated hover\<close>










end
